theory Spec2Isabelle
  imports Complex_Main "HOL-Library.Word" "HOL-Library.Signed_Division" "HOL-Library.Sublist"
begin

section \<open>The JNI bridge of pulse-network: data model\<close>

text \<open>
  The two translation units \<^verbatim>\<open>llama_jni.cpp\<close> and \<^verbatim>\<open>whisper_jni.cpp\<close> keep
  their engine handles in file-level static pointers. A pointer is modelled as an optional
  address, \<open>None\<close> being \<^verbatim>\<open>nullptr\<close>; a Java reference that may be null is modelled
  the same way. Strings crossing the boundary are the byte sequences that
  \<^verbatim>\<open>GetStringUTFChars\<close> hands out and \<^verbatim>\<open>NewStringUTF\<close> takes, so the Chinese
  literals of the source appear as their UTF-8 bytes. Calls to the Android log write
  nothing that the program reads back and are left out. The JNI allocation functions
  (\<^verbatim>\<open>NewStringUTF\<close>, \<^verbatim>\<open>NewObjectArray\<close>, \<^verbatim>\<open>NewFloatArray\<close>) are taken to
  succeed. A \<^verbatim>\<open>jfloat\<close> is modelled as a real number: a float literal of the source
  stands for its decimal value and a float division for the exact quotient, the rounding
  to binary32 being left out; no property below depends on it.

  A Java object built through \<^verbatim>\<open>NewObject\<close> is recorded as the construction the
  source asks for: the class name given to \<^verbatim>\<open>FindClass\<close>, the constructor signature
  given to \<^verbatim>\<open>GetMethodID\<close>, and the arguments in the order they are passed. The Java
  classes themselves are not part of these sources. \<open>JStringReleased s\<close> is the Java
  string that \<^verbatim>\<open>NewStringUTF\<close> makes from a buffer that held \<open>s\<close> and has already
  been given back with \<^verbatim>\<open>ReleaseStringUTFChars\<close>: its content is not determined, and
  nothing below takes it to be \<open>s\<close>.
\<close>

datatype jvalue =
    JString string
  | JStringReleased string
  | JLong "64 word"
  | JInt "32 word"
  | JFloat real
  | JList "jvalue list"
  | JNew string string "jvalue list"

text \<open>
  \<^verbatim>\<open>NewObject(cls, ctor, ...)\<close> is variadic: the virtual machine reads the arguments
  as the constructor's descriptor lists them. \<open>descriptor_params\<close> reads the parameter
  kinds between the parentheses of a descriptor (\<^verbatim>\<open>L...;\<close> a reference, \<^verbatim>\<open>J\<close>
  long, \<^verbatim>\<open>I\<close> int, \<^verbatim>\<open>F\<close> float; its flag says whether a class name is being
  skipped), \<open>jkind_of\<close> gives the kind of an argument. When the two lists agree the
  call yields the object; when they do not, JNI does not define what the call does, and
  the model keeps the call as it was made (\<open>NewObject_mismatch\<close>) without giving it a
  result.
\<close>

datatype jkind = KObject | KLong | KInt | KFloat | KOther

fun descriptor_params :: "bool \<Rightarrow> string \<Rightarrow> jkind list" where
  "descriptor_params in_class [] = []"
| "descriptor_params True (c # cs) =
     (if c = CHR '';'' then descriptor_params False cs else descriptor_params True cs)"
| "descriptor_params False (c # cs) =
     (if c = CHR ''('' then descriptor_params False cs
      else if c = CHR '')'' then []
      else if c = CHR ''L'' then KObject # descriptor_params True cs
      else if c = CHR ''J'' then KLong # descriptor_params False cs
      else if c = CHR ''I'' then KInt # descriptor_params False cs
      else if c = CHR ''F'' then KFloat # descriptor_params False cs
      else KOther # descriptor_params False cs)"

fun jkind_of :: "jvalue \<Rightarrow> jkind" where
  "jkind_of (JString s) = KObject"
| "jkind_of (JStringReleased s) = KObject"
| "jkind_of (JLong n) = KLong"
| "jkind_of (JInt n) = KInt"
| "jkind_of (JFloat x) = KFloat"
| "jkind_of (JList xs) = KObject"
| "jkind_of (JNew cls sig args) = KObject"

datatype jni_result =
    Returned jvalue
  | NewObject_mismatch string string "jvalue list"

definition NewObject :: "string \<Rightarrow> string \<Rightarrow> jvalue list \<Rightarrow> jni_result" where
  "NewObject cls sig args =
     (if descriptor_params False sig = map jkind_of args
      then Returned (JNew cls sig args)
      else NewObject_mismatch cls sig args)"

type_synonym addr = nat
type_synonym jint = "32 word"
type_synonym jlong = "64 word"
type_synonym jfloat = real

text \<open>
  \<^verbatim>\<open>static llama_model* g_model = nullptr;\<close>
  \<^verbatim>\<open>static llama_context* g_ctx = nullptr;\<close>
  \<^verbatim>\<open>static bool g_is_generating = false;\<close>
\<close>

record llama_state =
  g_model :: "addr option"
  g_ctx :: "addr option"
  g_is_generating :: bool

definition llama_initial :: llama_state where
  "llama_initial = \<lparr>g_model = None, g_ctx = None, g_is_generating = False\<rparr>"

text \<open>\<^verbatim>\<open>static whisper_context* g_whisper_ctx = nullptr;\<close>\<close>

record whisper_state =
  g_whisper_ctx :: "addr option"

definition whisper_initial :: whisper_state where
  "whisper_initial = \<lparr>g_whisper_ctx = None\<rparr>"

section \<open>The text-generation adapter (llama\_jni.cpp)\<close>

text \<open>
  \<^verbatim>\<open>nativeLoadModel\<close>: the path is borrowed, logged and released; the calls that
  would assign \<^verbatim>\<open>g_model\<close> and \<^verbatim>\<open>g_ctx\<close> are commented out; the function returns
  \<^verbatim>\<open>JNI_TRUE\<close>.
\<close>

definition LLMInferenceImpl_nativeLoadModel ::
  "llama_state \<Rightarrow> string \<Rightarrow> jint \<Rightarrow> jint \<Rightarrow> llama_state \<times> bool" where
  "LLMInferenceImpl_nativeLoadModel st model_path context_length threads = (st, True)"

text \<open>\<^verbatim>\<open>return g_model != nullptr ? JNI_TRUE : JNI_FALSE;\<close>\<close>

definition LLMInferenceImpl_nativeIsModelLoaded :: "llama_state \<Rightarrow> bool" where
  "LLMInferenceImpl_nativeIsModelLoaded st = (g_model st \<noteq> None)"

text \<open>
  The text of \<^verbatim>\<open>std::string result\<close> in \<^verbatim>\<open>nativeGenerate\<close>: the ASCII prefix
  \<^verbatim>\<open>[JNI Bridge] \<close> followed by the UTF-8 bytes of a Chinese sentence saying that the
  model is not really loaded and that this is a placeholder response.
\<close>

definition Generate_result :: string where
  "Generate_result = ''[JNI Bridge] '' @
     [CHR 0xE6, CHR 0xA8, CHR 0xA1, CHR 0xE5, CHR 0x9E, CHR 0x8B,
      CHR 0xE6, CHR 0x9C, CHR 0xAA, CHR 0xE5, CHR 0xAE, CHR 0x9E,
      CHR 0xE9, CHR 0x99, CHR 0x85, CHR 0xE5, CHR 0x8A, CHR 0xA0,
      CHR 0xE8, CHR 0xBD, CHR 0xBD, CHR 0xEF, CHR 0xBC, CHR 0x8C,
      CHR 0xE8, CHR 0xBF, CHR 0x99, CHR 0xE6, CHR 0x98, CHR 0xAF,
      CHR 0xE5, CHR 0x8D, CHR 0xA0, CHR 0xE4, CHR 0xBD, CHR 0x8D,
      CHR 0xE5, CHR 0x93, CHR 0x8D, CHR 0xE5, CHR 0xBA, CHR 0x94,
      CHR 0xE3, CHR 0x80, CHR 0x82]"

text \<open>
  \<^verbatim>\<open>nativeGenerate\<close> borrows the prompt, builds the fixed string, releases the prompt
  and returns the string as a new Java string. No global is read or written.
\<close>

definition LLMInferenceImpl_nativeGenerate ::
  "llama_state \<Rightarrow> string \<Rightarrow> jint \<Rightarrow> jfloat \<Rightarrow> jfloat \<Rightarrow> jint \<Rightarrow> llama_state \<times> string option" where
  "LLMInferenceImpl_nativeGenerate st prompt max_tokens temperature top_p top_k =
     (st, Some Generate_result)"

text \<open>The five literals stored into the array by \<^verbatim>\<open>nativeGenerateStream\<close>.\<close>

definition fragment0 :: string where
  "fragment0 = [CHR 0xE8, CHR 0xBF, CHR 0x99, CHR 0xE6, CHR 0x98, CHR 0xAF]"

definition fragment1 :: string where
  "fragment1 = [CHR 0xE6, CHR 0xA8, CHR 0xA1, CHR 0xE6, CHR 0x8B, CHR 0x9F]"

definition fragment2 :: string where
  "fragment2 = [CHR 0xE7, CHR 0x9A, CHR 0x84]"

definition fragment3 :: string where
  "fragment3 = [CHR 0xE6, CHR 0xB5, CHR 0x81, CHR 0xE5, CHR 0xBC, CHR 0x8F]"

definition fragment4 :: string where
  "fragment4 = [CHR 0xE5, CHR 0x93, CHR 0x8D, CHR 0xE5, CHR 0xBA, CHR 0x94,
                CHR 0xE3, CHR 0x80, CHR 0x82]"

text \<open>
  \<^verbatim>\<open>NewObjectArray(n, cls, nullptr)\<close> gives an array of \<open>n\<close> null references;
  \<^verbatim>\<open>SetObjectArrayElement\<close> stores at an index inside the array (the five stores of
  the source are at 0..4 of a five-element array).
\<close>

definition NewObjectArray :: "nat \<Rightarrow> string option list" where
  "NewObjectArray n = replicate n None"

definition SetObjectArrayElement ::
  "string option list \<Rightarrow> nat \<Rightarrow> string \<Rightarrow> string option list" where
  "SetObjectArrayElement arr i s = arr[i := Some s]"

definition LLMInferenceImpl_nativeGenerateStream ::
  "llama_state \<Rightarrow> string \<Rightarrow> jint \<Rightarrow> jfloat \<Rightarrow> jfloat \<Rightarrow> jint
     \<Rightarrow> llama_state \<times> string option list" where
  "LLMInferenceImpl_nativeGenerateStream st prompt max_tokens temperature top_p top_k =
     (let result = NewObjectArray 5;
          result = SetObjectArrayElement result 0 fragment0;
          result = SetObjectArrayElement result 1 fragment1;
          result = SetObjectArrayElement result 2 fragment2;
          result = SetObjectArrayElement result 3 fragment3;
          result = SetObjectArrayElement result 4 fragment4
      in (st, result))"

text \<open>
  The text a caller obtains by joining the elements of a fragment array in index order
  (a null element contributes nothing).
\<close>

definition concat_fragments :: "string option list \<Rightarrow> string" where
  "concat_fragments arr = concat (map (\<lambda>e. case e of None \<Rightarrow> [] | Some s \<Rightarrow> s) arr)"

text \<open>\<^verbatim>\<open>g_is_generating = false;\<close>\<close>

definition LLMInferenceImpl_nativeStopGeneration :: "llama_state \<Rightarrow> llama_state" where
  "LLMInferenceImpl_nativeStopGeneration st = st\<lparr>g_is_generating := False\<rparr>"

text \<open>\<^verbatim>\<open>g_ctx = nullptr; g_model = nullptr;\<close>\<close>

definition LLMInferenceImpl_nativeUnloadModel :: "llama_state \<Rightarrow> llama_state" where
  "LLMInferenceImpl_nativeUnloadModel st = st\<lparr>g_ctx := None, g_model := None\<rparr>"

text \<open>
  \<^verbatim>\<open>nativeGetEmbedding\<close>. \<^verbatim>\<open>const int dimension = 384;\<close> The loop
  \<^verbatim>\<open>for (int i = 0; i < dimension; i++) data[i] = (float)(rand() % 200 - 100) / 100.0f;\<close>
  is the recursion \<open>fill_data\<close>. The C library's generator is a parameter: \<open>rnd i\<close>
  is the value of the \<open>i\<close>-th call of \<^verbatim>\<open>rand()\<close> made by this invocation. The
  remainder of C truncates towards zero (\<open>smod\<close>). The buffer from \<^verbatim>\<open>new float[dimension]\<close>
  starts with indeterminate content, written \<open>0\<close> here; \<^verbatim>\<open>SetFloatArrayRegion\<close>
  copies the whole buffer into the fresh Java array. The text is borrowed and released
  and not otherwise used; no global is read or written.
\<close>

definition dimension :: nat where
  "dimension = 384"

function fill_data :: "(nat \<Rightarrow> int) \<Rightarrow> nat \<Rightarrow> jfloat list \<Rightarrow> jfloat list" where
  "fill_data rnd i data =
     (if i < dimension
      then fill_data rnd (Suc i) (data[i := real_of_int (rnd i smod 200 - 100) / 100])
      else data)"
  by pat_completeness auto
termination
  by (relation "measure (\<lambda>(rnd, i, data). dimension - i)") auto

declare fill_data.simps [simp del]

definition LLMInferenceImpl_nativeGetEmbedding ::
  "(nat \<Rightarrow> int) \<Rightarrow> llama_state \<Rightarrow> string \<Rightarrow> llama_state \<times> jfloat list" where
  "LLMInferenceImpl_nativeGetEmbedding rnd st text =
     (st, fill_data rnd 0 (replicate dimension 0))"

text \<open>
  \<^verbatim>\<open>nativeGetModelInfo\<close> constructs a \<^verbatim>\<open>ModelInfo\<close> from six literals; the source
  labels the second to fourth and the last as parameterCount, contextLength, embeddingSize
  and fileSizeMB.
\<close>

definition LLMInferenceImpl_nativeGetModelInfo :: "llama_state \<Rightarrow> llama_state \<times> jvalue option" where
  "LLMInferenceImpl_nativeGetModelInfo st =
     (st, Some (JNew ''com/pulsenetwork/core/native/ModelInfo''
                  ''(Ljava/lang/String;JIILjava/lang/String;J)V''
                  [JString ''Unknown Model'', JLong 0, JInt 2048, JInt 384,
                   JString ''Unknown'', JLong 0]))"

text \<open>The embeddingSize argument of a \<^verbatim>\<open>ModelInfo\<close> construction: the fourth of six.\<close>

fun embeddingSize :: "jvalue option \<Rightarrow> jint option" where
  "embeddingSize (Some (JNew cls sig [name, JLong pc, JInt cl, JInt es, fmt, JLong fs])) = Some es"
| "embeddingSize _ = None"

subsection \<open>Reading /proc/meminfo\<close>

text \<open>
  \<^verbatim>\<open>fgets(line, n, fp)\<close> stores at most \<open>n - 1\<close> bytes, stopping after a
  newline, and returns \<^verbatim>\<open>NULL\<close> at end of file when nothing was read. The stream is
  the list of bytes still unread.
\<close>

fun fgets_read :: "nat \<Rightarrow> string \<Rightarrow> string \<times> string" where
  "fgets_read 0 inp = ([], inp)"
| "fgets_read (Suc k) [] = ([], [])"
| "fgets_read (Suc k) (c # cs) =
     (if c = CHR 0x0A then ([c], cs)
      else (case fgets_read k cs of (l, r) \<Rightarrow> (c # l, r)))"

definition fgets :: "nat \<Rightarrow> string \<Rightarrow> (string \<times> string) option" where
  "fgets n inp = (if inp = [] then None else Some (fgets_read (n - 1) inp))"

text \<open>A C string ends at its first NUL byte.\<close>

definition c_str :: "string \<Rightarrow> string" where
  "c_str buf = takeWhile (\<lambda>c. c \<noteq> CHR 0x00) buf"

text \<open>\<^verbatim>\<open>isspace\<close> and \<^verbatim>\<open>isdigit\<close> of the C locale.\<close>

definition isspace :: "char \<Rightarrow> bool" where
  "isspace c = (c = CHR 0x20 \<or> c = CHR 0x09 \<or> c = CHR 0x0A \<or> c = CHR 0x0B
                \<or> c = CHR 0x0C \<or> c = CHR 0x0D)"

definition isdigit :: "char \<Rightarrow> bool" where
  "isdigit c = (48 \<le> (of_char c :: nat) \<and> (of_char c :: nat) \<le> 57)"

text \<open>
  The pieces of \<^verbatim>\<open>sscanf(line, "MemAvailable: %ld kB", &availableKB)\<close>. Ordinary
  characters of the format must be the next bytes of the input; a white-space directive
  skips any run of white space; \<^verbatim>\<open>%ld\<close> skips white space, takes an optional sign
  and the longest run of decimal digits, and fails when there is no digit. The call
  returns 1 exactly when the conversion succeeded, whatever follows the number, so the
  directive \<^verbatim>\<open> kB\<close> has no bearing on the test \<^verbatim>\<open>== 1\<close>. A number that does not
  fit in a \<^verbatim>\<open>long\<close> has no defined conversion in C; the model yields its
  mathematical value, and the properties below are stated for numbers that fit.
\<close>

fun match_literal :: "string \<Rightarrow> string \<Rightarrow> string option" where
  "match_literal [] inp = Some inp"
| "match_literal (f # fs) [] = None"
| "match_literal (f # fs) (c # cs) = (if f = c then match_literal fs cs else None)"

definition digits_value :: "string \<Rightarrow> int" where
  "digits_value ds = foldl (\<lambda>a c. 10 * a + (of_char c - 48)) 0 ds"

definition scan_ld :: "string \<Rightarrow> int option" where
  "scan_ld inp =
     (let s = dropWhile isspace inp;
          neg = (case s of [] \<Rightarrow> False | c # cs \<Rightarrow> c = CHR ''-'');
          s1 = (case s of [] \<Rightarrow> [] | c # cs \<Rightarrow> if c = CHR ''-'' \<or> c = CHR ''+'' then cs else s);
          ds = takeWhile isdigit s1
      in if ds = [] then None
         else Some (if neg then - digits_value ds else digits_value ds))"

definition sscanf_MemAvailable :: "string \<Rightarrow> int option" where
  "sscanf_MemAvailable line =
     (case match_literal ''MemAvailable:'' (c_str line) of
        None \<Rightarrow> None
      | Some r \<Rightarrow> scan_ld (dropWhile isspace r))"

text \<open>
  \<^verbatim>\<open>while (fgets(line, sizeof(line), fp)) { if (sscanf(...) == 1) break; }\<close> with
  \<^verbatim>\<open>char line[256]\<close>: the loop returns the value of \<^verbatim>\<open>availableKB\<close> when it ends.
  A failed scan leaves \<^verbatim>\<open>availableKB\<close> as it was.
\<close>

lemma fgets_read_shorter:
  "inp \<noteq> [] \<Longrightarrow> fgets_read (Suc k) inp = (l, r) \<Longrightarrow> length r < length inp"
proof (induction k arbitrary: inp l r)
  case 0
  then show ?case by (cases inp) (auto split: if_splits)
next
  case (Suc k)
  then obtain c cs where inp: "inp = c # cs" by (cases inp) auto
  show ?case
  proof (cases cs)
    case Nil
    with Suc.prems inp show ?thesis by (auto split: if_splits)
  next
    case (Cons d ds)
    obtain l' r' where lr: "fgets_read (Suc k) cs = (l', r')" by (cases "fgets_read (Suc k) cs")
    with Cons Suc.IH [of cs l' r'] have "length r' < length cs" by simp
    with Suc.prems inp lr show ?thesis by (auto split: if_splits)
  qed
qed

function read_meminfo :: "string \<Rightarrow> int \<Rightarrow> int" where
  "read_meminfo stream availableKB =
     (case fgets 256 stream of
        None \<Rightarrow> availableKB
      | Some (line, rest) \<Rightarrow>
          (case sscanf_MemAvailable line of
             Some v \<Rightarrow> v
           | None \<Rightarrow> read_meminfo rest availableKB))"
  by pat_completeness auto
termination
proof (relation "measure (\<lambda>(stream, availableKB). length stream)")
  show "wf (measure (\<lambda>(stream, availableKB). length stream))" by simp
next
  fix stream :: string and availableKB :: int and x2 line rest
  assume "fgets 256 stream = Some x2" and "(line, rest) = x2"
  then have "stream \<noteq> []" and "fgets_read (Suc 254) stream = (line, rest)"
    by (auto simp: fgets_def split: if_splits)
  then have "length rest < length stream" by (rule fgets_read_shorter)
  then show "((rest, availableKB), (stream, availableKB))
      \<in> measure (\<lambda>(stream, availableKB). length stream)" by simp
qed

declare read_meminfo.simps [simp del]

text \<open>
  \<^verbatim>\<open>nativeGetAvailableMemory\<close>. The argument is the content of \<^verbatim>\<open>/proc/meminfo\<close>,
  or \<open>None\<close> when \<^verbatim>\<open>fopen\<close> fails. The division of C truncates towards zero
  (\<open>sdiv\<close>); the \<^verbatim>\<open>long\<close> quotient is returned as a \<^verbatim>\<open>jlong\<close>.
\<close>

definition LLMInferenceImpl_nativeGetAvailableMemory :: "string option \<Rightarrow> jlong" where
  "LLMInferenceImpl_nativeGetAvailableMemory proc_meminfo =
     (case proc_meminfo of
        None \<Rightarrow> 0
      | Some content \<Rightarrow> word_of_int (read_meminfo content 0 sdiv 1024))"

text \<open>
  Decimal notation of a natural number, a text made of whole lines, the entry
  \<^verbatim>\<open>MemAvailable:\<close> with \<open>k\<close> blanks before the number \<open>n\<close>, and a line that is
  some other entry: for stating what a \<^verbatim>\<open>/proc/meminfo\<close> looks like.
\<close>

fun decimal :: "nat \<Rightarrow> string" where
  "decimal n = (if n < 10 then [char_of (48 + n)]
                else decimal (n div 10) @ [char_of (48 + n mod 10)])"

declare decimal.simps [simp del]

definition text_of_lines :: "string list \<Rightarrow> string" where
  "text_of_lines ls = concat (map (\<lambda>l. l @ [CHR 0x0A]) ls)"

definition MemAvailable_line :: "nat \<Rightarrow> nat \<Rightarrow> string" where
  "MemAvailable_line k n =
     ''MemAvailable:'' @ replicate k (CHR '' '') @ decimal n @ '' kB''"

definition other_line :: "string \<Rightarrow> bool" where
  "other_line l = (length l < 255 \<and> CHR 0x0A \<notin> set l \<and> \<not> prefix ''MemAvailable:'' l)"

section \<open>The speech-recognition adapter (whisper\_jni.cpp)\<close>

text \<open>
  \<^verbatim>\<open>nativeLoadModel\<close>: the call that would assign \<^verbatim>\<open>g_whisper_ctx\<close> is commented
  out; the function returns \<^verbatim>\<open>JNI_TRUE\<close>.
\<close>

definition SpeechRecognitionImpl_nativeLoadModel ::
  "whisper_state \<Rightarrow> string \<Rightarrow> whisper_state \<times> bool" where
  "SpeechRecognitionImpl_nativeLoadModel st model_path = (st, True)"

text \<open>\<^verbatim>\<open>return g_whisper_ctx != nullptr ? JNI_TRUE : JNI_FALSE;\<close>\<close>

definition SpeechRecognitionImpl_nativeIsModelLoaded :: "whisper_state \<Rightarrow> bool" where
  "SpeechRecognitionImpl_nativeIsModelLoaded st = (g_whisper_ctx st \<noteq> None)"

text \<open>
  The two literals of \<^verbatim>\<open>nativeTranscribe\<close>: \<^verbatim>\<open>[JNI] \<close> followed by the UTF-8
  bytes of ``simulated transcription result'' and of ``simulated transcription text''.
\<close>

definition segment_text :: string where
  "segment_text = ''[JNI] '' @
     [CHR 0xE6, CHR 0xA8, CHR 0xA1, CHR 0xE6, CHR 0x8B, CHR 0x9F,
      CHR 0xE8, CHR 0xBD, CHR 0xAC, CHR 0xE5, CHR 0xBD, CHR 0x95,
      CHR 0xE7, CHR 0xBB, CHR 0x93, CHR 0xE6, CHR 0x9E, CHR 0x9C]"

definition transcript_text :: string where
  "transcript_text = ''[JNI] '' @
     [CHR 0xE6, CHR 0xA8, CHR 0xA1, CHR 0xE6, CHR 0x8B, CHR 0x9F,
      CHR 0xE8, CHR 0xBD, CHR 0xAC, CHR 0xE5, CHR 0xBD, CHR 0x95,
      CHR 0xE6, CHR 0x96, CHR 0x87, CHR 0xE6, CHR 0x9C, CHR 0xAC]"

text \<open>
  \<^verbatim>\<open>nativeTranscribe\<close> reads the length of the sample array, borrows the samples and
  the language and releases both, then builds an \<^verbatim>\<open>ArrayList\<close> holding one
  \<^verbatim>\<open>TranscriptionSegment\<close> and calls the constructor of \<^verbatim>\<open>TranscriptionResult\<close>,
  returning what that call yields. Neither \<^verbatim>\<open>sample_count\<close> nor
  \<^verbatim>\<open>g_whisper_ctx\<close> is tested, and no global is written. The language argument of
  the last call is \<^verbatim>\<open>NewStringUTF(lang)\<close> with \<^verbatim>\<open>lang\<close> already released
  (\<open>JStringReleased\<close>). The segment constructor is looked up under
  \<^verbatim>\<open>(Ljava/lang/String;JJF)V\<close> and given a string, two longs and a float; the result
  constructor is looked up under \<^verbatim>\<open>(Ljava/util/List;JLjava/lang/String;F)V\<close> and
  given five arguments (string, list, long, string, float).
\<close>

definition SpeechRecognitionImpl_nativeTranscribe ::
  "whisper_state \<Rightarrow> jfloat list \<Rightarrow> string \<Rightarrow> whisper_state \<times> jni_result" where
  "SpeechRecognitionImpl_nativeTranscribe st samples language =
     (let sample_count = length samples
      in case NewObject ''com/pulsenetwork/core/native/TranscriptionSegment''
                ''(Ljava/lang/String;JJF)V''
                [JString segment_text, JLong 0, JLong 3000, JFloat 0.95] of
           NewObject_mismatch cls sig args \<Rightarrow> (st, NewObject_mismatch cls sig args)
         | Returned segment \<Rightarrow>
             (let segmentList = JList [segment]
              in (st, NewObject ''com/pulsenetwork/core/native/TranscriptionResult''
                        ''(Ljava/util/List;JLjava/lang/String;F)V''
                        [JString transcript_text, segmentList, JLong 500,
                         JStringReleased language, JFloat 0.9])))"

text \<open>\<^verbatim>\<open>nativeTranscribeFile\<close> borrows and releases both strings and returns \<^verbatim>\<open>nullptr\<close>.\<close>

definition SpeechRecognitionImpl_nativeTranscribeFile ::
  "whisper_state \<Rightarrow> string \<Rightarrow> string \<Rightarrow> whisper_state \<times> jvalue option" where
  "SpeechRecognitionImpl_nativeTranscribeFile st file_path language = (st, None)"

text \<open>\<^verbatim>\<open>g_whisper_ctx = nullptr;\<close>\<close>

definition SpeechRecognitionImpl_nativeUnloadModel :: "whisper_state \<Rightarrow> whisper_state" where
  "SpeechRecognitionImpl_nativeUnloadModel st = st\<lparr>g_whisper_ctx := None\<rparr>"


section \<open>Properties of the text-generation adapter\<close>

subsection \<open>Loading, unloading and the loaded query\<close>

lemma UnloadModel_not_loaded:
  "\<not> LLMInferenceImpl_nativeIsModelLoaded (LLMInferenceImpl_nativeUnloadModel st)"
  by (simp add: LLMInferenceImpl_nativeIsModelLoaded_def LLMInferenceImpl_nativeUnloadModel_def)

text \<open>
  Claim C1. LoadModel followed by IsModelLoaded should return true, and UnloadModel
  followed by IsModelLoaded false. The code at the initial state and a non-empty path:
  \<^verbatim>\<open>nativeLoadModel\<close> reports success, yet \<^verbatim>\<open>g_model\<close> is still null and
  \<^verbatim>\<open>nativeIsModelLoaded\<close> answers false. (The second half holds: see
  \<open>UnloadModel_not_loaded\<close>.)
\<close>

theorem LoadModel_reports_success_but_not_loaded:
  "snd (LLMInferenceImpl_nativeLoadModel llama_initial ''/data/local/tmp/model.gguf'' 2048 4)
   \<and> \<not> LLMInferenceImpl_nativeIsModelLoaded
         (fst (LLMInferenceImpl_nativeLoadModel llama_initial ''/data/local/tmp/model.gguf'' 2048 4))
   \<and> \<not> LLMInferenceImpl_nativeIsModelLoaded
         (LLMInferenceImpl_nativeUnloadModel
           (fst (LLMInferenceImpl_nativeLoadModel llama_initial ''/data/local/tmp/model.gguf'' 2048 4)))"
  by (simp add: LLMInferenceImpl_nativeLoadModel_def LLMInferenceImpl_nativeIsModelLoaded_def
      LLMInferenceImpl_nativeUnloadModel_def llama_initial_def)

subsection \<open>Generate\<close>

lemma Generate_result_length: "length Generate_result = 58"
  by (simp add: Generate_result_def)

text \<open>
  Claim C2, as the code has it. For every request and in every state, in particular
  when \<^verbatim>\<open>g_model\<close> is null, Generate returns the fixed placeholder string as an
  ordinary result and leaves the state unchanged; the handle is not consulted.
\<close>

theorem Generate_returns_placeholder_in_every_state:
  "LLMInferenceImpl_nativeGenerate st prompt max_tokens temperature top_p top_k
     = (st, Some Generate_result)
   \<and> LLMInferenceImpl_nativeGenerate (st\<lparr>g_model := None\<rparr>) prompt max_tokens temperature top_p top_k
     = (st\<lparr>g_model := None\<rparr>, Some Generate_result)"
  by (simp add: LLMInferenceImpl_nativeGenerate_def)

text \<open>
  Against claim C2 as stated: in the initial state no model is loaded, and Generate
  returns the 58-byte placeholder text.
\<close>

theorem Generate_without_model_counterexample:
  "\<not> LLMInferenceImpl_nativeIsModelLoaded llama_initial
   \<and> snd (LLMInferenceImpl_nativeGenerate llama_initial ''Hello'' 16 0.7 0.9 40)
       = Some Generate_result
   \<and> length Generate_result = 58"
  by (simp add: LLMInferenceImpl_nativeGenerate_def LLMInferenceImpl_nativeIsModelLoaded_def
      llama_initial_def Generate_result_length)

subsection \<open>LoadModel validation (both adapters)\<close>

text \<open>
  Claim C3, as the code has it. Neither LoadModel validates its path: for every path,
  the empty one included, every option and every state, it reports success (returns
  true). What a load does to the engine handle is no part of this statement.
\<close>

theorem LoadModel_accepts_every_path:
  "snd (LLMInferenceImpl_nativeLoadModel st model_path context_length threads)
   \<and> snd (LLMInferenceImpl_nativeLoadModel st [] context_length threads)
   \<and> snd (SpeechRecognitionImpl_nativeLoadModel wst model_path)
   \<and> snd (SpeechRecognitionImpl_nativeLoadModel wst [])"
  by (simp add: LLMInferenceImpl_nativeLoadModel_def SpeechRecognitionImpl_nativeLoadModel_def)

text \<open>
  Against claim C3 as stated: the empty path is not rejected; both LoadModel functions
  return true on it.
\<close>

theorem LoadModel_empty_path_counterexample:
  "snd (LLMInferenceImpl_nativeLoadModel llama_initial [] 2048 4)
   \<and> snd (SpeechRecognitionImpl_nativeLoadModel whisper_initial [])"
  by (simp add: LLMInferenceImpl_nativeLoadModel_def SpeechRecognitionImpl_nativeLoadModel_def)

subsection \<open>GenerateStream against Generate\<close>

lemma GenerateStream_array:
  "LLMInferenceImpl_nativeGenerateStream st prompt max_tokens temperature top_p top_k
     = (st, [Some fragment0, Some fragment1, Some fragment2, Some fragment3, Some fragment4])"
  by (simp add: LLMInferenceImpl_nativeGenerateStream_def NewObjectArray_def
      SetObjectArrayElement_def numeral_eq_Suc)

lemma concat_fragments_five:
  "concat_fragments [Some fragment0, Some fragment1, Some fragment2, Some fragment3, Some fragment4]
     = fragment0 @ fragment1 @ fragment2 @ fragment3 @ fragment4"
  by (simp add: concat_fragments_def)

lemma stream_text_length:
  "length (fragment0 @ fragment1 @ fragment2 @ fragment3 @ fragment4) = 30"
  by (simp add: fragment0_def fragment1_def fragment2_def fragment3_def fragment4_def)

lemma stream_text_differs:
  "fragment0 @ fragment1 @ fragment2 @ fragment3 @ fragment4 \<noteq> Generate_result"
proof
  assume "fragment0 @ fragment1 @ fragment2 @ fragment3 @ fragment4 = Generate_result"
  then have "length (fragment0 @ fragment1 @ fragment2 @ fragment3 @ fragment4)
      = length Generate_result" by (rule arg_cong)
  then show False by (simp only: stream_text_length Generate_result_length)
qed

text \<open>
  Claim C5, as the code has it. For every prompt and parameter set and in every state,
  the fragments of GenerateStream join to one fixed 30-byte text and Generate returns one
  fixed 58-byte text: each is the same for all inputs, and the two are different texts.
\<close>

theorem GenerateStream_and_Generate_fixed_and_different:
  "concat_fragments
     (snd (LLMInferenceImpl_nativeGenerateStream st prompt max_tokens temperature top_p top_k))
     = fragment0 @ fragment1 @ fragment2 @ fragment3 @ fragment4
   \<and> snd (LLMInferenceImpl_nativeGenerate st prompt max_tokens temperature top_p top_k)
     = Some Generate_result
   \<and> Some (concat_fragments
        (snd (LLMInferenceImpl_nativeGenerateStream st prompt max_tokens temperature top_p top_k)))
     \<noteq> snd (LLMInferenceImpl_nativeGenerate st prompt max_tokens temperature top_p top_k)"
  using stream_text_differs
  by (simp add: GenerateStream_array concat_fragments_five LLMInferenceImpl_nativeGenerate_def)

text \<open>
  Against claim C5 as stated: for the same prompt and parameters the joined fragments are
  not the text Generate returns.
\<close>

theorem GenerateStream_concat_counterexample:
  "Some (concat_fragments
      (snd (LLMInferenceImpl_nativeGenerateStream llama_initial ''Hello'' 16 0.7 0.9 40)))
   \<noteq> snd (LLMInferenceImpl_nativeGenerate llama_initial ''Hello'' 16 0.7 0.9 40)"
  using stream_text_differs
  by (simp add: GenerateStream_array concat_fragments_five LLMInferenceImpl_nativeGenerate_def)

subsection \<open>GetEmbedding and GetModelInfo\<close>

lemma length_fill_data: "length (fill_data rnd i data) = length data"
proof (induction rnd i data rule: fill_data.induct)
  case (1 rnd i data)
  show ?case
  proof (cases "i < dimension")
    case True
    with 1 show ?thesis by (subst fill_data.simps) simp
  next
    case False
    then show ?thesis by (subst fill_data.simps) simp
  qed
qed

lemma length_GetEmbedding:
  "length (snd (LLMInferenceImpl_nativeGetEmbedding rnd st text)) = 384"
  by (simp add: LLMInferenceImpl_nativeGetEmbedding_def length_fill_data dimension_def)

lemma GetModelInfo_embeddingSize:
  "embeddingSize (snd (LLMInferenceImpl_nativeGetModelInfo st)) = Some 384"
  by (simp add: LLMInferenceImpl_nativeGetModelInfo_def)

text \<open>
  Claim C6, as the code has it. For every input text, every behaviour of \<^verbatim>\<open>rand()\<close>
  and every state, loaded or not, GetEmbedding returns a vector of length 384 and leaves
  the state unchanged; GetModelInfo reports embeddingSize 384 in every state, so the two
  agree; both numbers are literals of the source and do not depend on the handle.
\<close>

theorem GetEmbedding_length_is_constant_384:
  "length (snd (LLMInferenceImpl_nativeGetEmbedding rnd st text)) = 384
   \<and> fst (LLMInferenceImpl_nativeGetEmbedding rnd st text) = st
   \<and> embeddingSize (snd (LLMInferenceImpl_nativeGetModelInfo st)) = Some 384
   \<and> embeddingSize (snd (LLMInferenceImpl_nativeGetModelInfo st'))
       = embeddingSize (snd (LLMInferenceImpl_nativeGetModelInfo st))
   \<and> Some (word_of_nat (length (snd (LLMInferenceImpl_nativeGetEmbedding rnd st text))))
       = embeddingSize (snd (LLMInferenceImpl_nativeGetModelInfo st))
   \<and> length (snd (LLMInferenceImpl_nativeGetEmbedding rnd (st\<lparr>g_model := None, g_ctx := None\<rparr>) text))
       = 384"
  by (simp add: length_GetEmbedding GetModelInfo_embeddingSize)
    (simp add: LLMInferenceImpl_nativeGetEmbedding_def)

text \<open>
  Against claim C6 as stated: in the initial state no model is loaded, and GetEmbedding
  still returns a vector of 384 numbers.
\<close>

theorem GetEmbedding_without_model_counterexample:
  "\<not> LLMInferenceImpl_nativeIsModelLoaded llama_initial
   \<and> length (snd (LLMInferenceImpl_nativeGetEmbedding (\<lambda>i. 0) llama_initial ''hello'')) = 384"
  by (simp add: length_GetEmbedding LLMInferenceImpl_nativeIsModelLoaded_def llama_initial_def)

subsection \<open>StopGeneration and GenerateStream\<close>

text \<open>
  Claim C9. StopGeneration is idempotent and harmless when nothing is running: from any
  state, one call or any larger number of calls only clears \<^verbatim>\<open>g_is_generating\<close>;
  \<^verbatim>\<open>g_model\<close> and \<^verbatim>\<open>g_ctx\<close> are what they were, and the function (of return type
  void, with no failing branch) is total.
\<close>

theorem StopGeneration_idempotent_keeps_handle:
  "(LLMInferenceImpl_nativeStopGeneration ^^ Suc n) st = st\<lparr>g_is_generating := False\<rparr>
   \<and> LLMInferenceImpl_nativeStopGeneration (LLMInferenceImpl_nativeStopGeneration st)
       = LLMInferenceImpl_nativeStopGeneration st
   \<and> g_model ((LLMInferenceImpl_nativeStopGeneration ^^ n) st) = g_model st
   \<and> g_ctx ((LLMInferenceImpl_nativeStopGeneration ^^ n) st) = g_ctx st
   \<and> \<not> g_is_generating (LLMInferenceImpl_nativeStopGeneration st)"
proof -
  have once: "\<And>s. LLMInferenceImpl_nativeStopGeneration s = s\<lparr>g_is_generating := False\<rparr>"
    by (simp add: LLMInferenceImpl_nativeStopGeneration_def)
  have many: "(LLMInferenceImpl_nativeStopGeneration ^^ Suc k) st = st\<lparr>g_is_generating := False\<rparr>" for k
    by (induction k) (simp_all add: once)
  have handles: "g_model ((LLMInferenceImpl_nativeStopGeneration ^^ k) st) = g_model st
      \<and> g_ctx ((LLMInferenceImpl_nativeStopGeneration ^^ k) st) = g_ctx st" for k
    by (induction k) (simp_all add: once)
  show ?thesis
    using many [of n] handles [of n] by (simp add: once)
qed

text \<open>
  Claim C10. For every prompt and every maxTokens, temperature, topP and topK (zero and
  negative maxTokens included), and in every state, GenerateStream returns the same array
  of exactly five text fragments and leaves the globals untouched.
\<close>

theorem GenerateStream_fixed_five_fragments:
  "LLMInferenceImpl_nativeGenerateStream st prompt max_tokens temperature top_p top_k
     = (st, [Some fragment0, Some fragment1, Some fragment2, Some fragment3, Some fragment4])
   \<and> length (snd (LLMInferenceImpl_nativeGenerateStream st prompt max_tokens temperature top_p top_k)) = 5
   \<and> snd (LLMInferenceImpl_nativeGenerateStream st prompt max_tokens temperature top_p top_k)
     = snd (LLMInferenceImpl_nativeGenerateStream st' prompt' max_tokens' temperature' top_p' top_k')"
  by (simp add: LLMInferenceImpl_nativeGenerateStream_def NewObjectArray_def
      SetObjectArrayElement_def numeral_eq_Suc)

section \<open>Properties of GetAvailableMemory\<close>

lemma match_literal_append: "match_literal lit (lit @ r) = Some r"
  by (induction lit) simp_all

lemma match_literal_Some: "match_literal lit inp = Some r \<Longrightarrow> inp = lit @ r"
proof (induction lit inp rule: match_literal.induct)
  case (3 f fs c cs)
  then show ?case by (simp split: if_splits)
qed simp_all

lemma match_literal_no_prefix: "\<not> prefix lit inp \<Longrightarrow> match_literal lit inp = None"
proof (cases "match_literal lit inp")
  case (Some r)
  assume "\<not> prefix lit inp"
  with match_literal_Some [OF Some] show ?thesis by simp
qed simp

lemma c_str_prefix: "prefix (c_str buf) buf"
  by (simp add: c_str_def takeWhile_is_prefix)

lemma sscanf_no_prefix:
  assumes "\<not> prefix ''MemAvailable:'' line"
  shows "sscanf_MemAvailable line = None"
proof -
  have "\<not> prefix ''MemAvailable:'' (c_str line)"
    using assms c_str_prefix [of line] prefix_order.trans by blast
  then show ?thesis
    by (simp add: sscanf_MemAvailable_def match_literal_no_prefix)
qed

lemma fgets_read_line:
  "CHR 0x0A \<notin> set l \<Longrightarrow> length l < k \<Longrightarrow>
   fgets_read k (l @ CHR 0x0A # rest) = (l @ [CHR 0x0A], rest)"
proof (induction l arbitrary: k)
  case Nil
  then show ?case by (cases k) simp_all
next
  case (Cons c l)
  then obtain k' where "k = Suc k'" by (cases k) auto
  with Cons show ?case by auto
qed

lemma fgets_line:
  "CHR 0x0A \<notin> set l \<Longrightarrow> length l < 255 \<Longrightarrow>
   fgets 256 (l @ CHR 0x0A # rest) = Some (l @ [CHR 0x0A], rest)"
  by (simp add: fgets_def fgets_read_line)

lemma fgets_read_split: "fgets_read k inp = (l, r) \<Longrightarrow> inp = l @ r"
proof (induction k inp arbitrary: l r rule: fgets_read.induct)
  case (3 k c cs)
  then show ?case by (auto split: if_splits prod.splits)
qed simp_all

lemma fgets_split: "fgets n inp = Some (l, r) \<Longrightarrow> inp = l @ r"
  by (auto simp: fgets_def fgets_read_split split: if_splits)

lemma read_meminfo_no_occurrence:
  "\<not> sublist ''MemAvailable:'' stream \<Longrightarrow> read_meminfo stream kb = kb"
proof (induction stream kb rule: read_meminfo.induct)
  case (1 stream kb)
  show ?case
  proof (cases "fgets 256 stream")
    case None
    then show ?thesis by (subst read_meminfo.simps) simp
  next
    case (Some p)
    obtain line rest where p: "p = (line, rest)" by (cases p)
    with Some have split: "stream = line @ rest" by (simp add: fgets_split)
    have np: "\<not> prefix ''MemAvailable:'' line"
      using "1.prems" split by (metis prefix_imp_sublist sublist_append)
    have nr: "\<not> sublist ''MemAvailable:'' rest"
      using "1.prems" split by (simp add: sublist_append)
    have sc: "sscanf_MemAvailable line = None" using np by (rule sscanf_no_prefix)
    have "read_meminfo rest kb = kb"
      using "1.IH" [OF Some p [symmetric] sc nr] .
    then show ?thesis
      using Some p sc by (subst read_meminfo.simps) simp
  qed
qed

lemma read_meminfo_skip_line:
  assumes "other_line l"
  shows "read_meminfo (l @ CHR 0x0A # rest) kb = read_meminfo rest kb"
proof -
  from assms have f: "fgets 256 (l @ CHR 0x0A # rest) = Some (l @ [CHR 0x0A], rest)"
    by (simp add: other_line_def fgets_line)
  from assms have "\<not> prefix ''MemAvailable:'' (l @ [CHR 0x0A])"
    by (auto simp: other_line_def prefix_snoc)
  then have "sscanf_MemAvailable (l @ [CHR 0x0A]) = None" by (rule sscanf_no_prefix)
  with f show ?thesis by (subst read_meminfo.simps) simp
qed

lemma read_meminfo_skip_lines:
  "list_all other_line ls \<Longrightarrow> read_meminfo (text_of_lines ls @ rest) kb = read_meminfo rest kb"
proof (induction ls)
  case Nil
  then show ?case by (simp add: text_of_lines_def)
next
  case (Cons l ls)
  then have "read_meminfo (text_of_lines ls @ rest) kb = read_meminfo rest kb" by simp
  moreover have "text_of_lines (l # ls) @ rest = l @ CHR 0x0A # (text_of_lines ls @ rest)"
    by (simp add: text_of_lines_def)
  ultimately show ?case using Cons.prems by (simp add: read_meminfo_skip_line)
qed

lemma isdigit_digit: "d < 10 \<Longrightarrow> isdigit (char_of (48 + d :: nat))"
  by (simp add: isdigit_def)

lemma digit_value: "d < 10 \<Longrightarrow> (of_char (char_of (48 + d :: nat)) :: int) - 48 = int d"
proof -
  assume d: "d < 10"
  have "(of_char (char_of (48 + d)) :: int) = int (of_char (char_of (48 + d)) :: nat)"
    by (simp only: of_nat_of_char)
  also have "\<dots> = int (48 + d)" using d by simp
  finally show ?thesis by simp
qed

lemma decimal_digits: "list_all isdigit (decimal n)"
proof (induction n rule: decimal.induct)
  case (1 n)
  show ?case
  proof (cases "n < 10")
    case True
    then show ?thesis by (subst decimal.simps) (simp add: isdigit_digit)
  next
    case False
    with 1 have "list_all isdigit (decimal (n div 10))" by simp
    moreover have "isdigit (char_of (48 + n mod 10))" by (rule isdigit_digit) simp
    ultimately show ?thesis using False by (subst decimal.simps) simp
  qed
qed

lemma decimal_nonempty: "decimal n \<noteq> []"
  by (subst decimal.simps) simp

lemma digits_value_snoc:
  "digits_value (ds @ [c]) = 10 * digits_value ds + (of_char c - 48)"
  by (simp add: digits_value_def)

lemma digits_value_decimal: "digits_value (decimal n) = int n"
proof (induction n rule: decimal.induct)
  case (1 n)
  show ?case
  proof (cases "n < 10")
    case True
    then have "decimal n = [char_of (48 + n)]" by (subst decimal.simps) simp
    with True digit_value [of n] show ?thesis by (simp add: digits_value_def)
  next
    case False
    then have d: "decimal n = decimal (n div 10) @ [char_of (48 + n mod 10)]"
      by (subst decimal.simps) simp
    from False 1 have "digits_value (decimal (n div 10)) = int (n div 10)" by simp
    moreover have "(of_char (char_of (48 + n mod 10)) :: int) - 48 = int (n mod 10)"
      by (rule digit_value) simp
    moreover have "int n = 10 * int (n div 10) + int (n mod 10)"
    proof -
      have "int n = int (10 * (n div 10) + n mod 10)" by simp
      then show ?thesis by (simp only: of_nat_add of_nat_mult of_nat_numeral)
    qed
    ultimately show ?thesis by (simp add: d digits_value_snoc)
  qed
qed

lemma length_decimal: "n < 10 ^ Suc m \<Longrightarrow> length (decimal n) \<le> Suc m"
proof (induction m arbitrary: n)
  case 0
  then show ?case by (subst decimal.simps) simp
next
  case (Suc m)
  show ?case
  proof (cases "n < 10")
    case True
    then show ?thesis by (subst decimal.simps) simp
  next
    case False
    from Suc.prems have "n div 10 < 10 ^ Suc m" by (simp add: less_mult_imp_div_less)
    then have "length (decimal (n div 10)) \<le> Suc m" by (rule Suc.IH)
    with False show ?thesis by (subst decimal.simps) simp
  qed
qed


lemma isdigit_not_isspace: "isdigit c \<Longrightarrow> \<not> isspace c"
  by (auto simp: isdigit_def isspace_def)

lemma isdigit_not_sign: "isdigit c \<Longrightarrow> c \<noteq> CHR ''-'' \<and> c \<noteq> CHR ''+''"
  by (auto simp: isdigit_def)

lemma isdigit_not_NUL: "isdigit c \<Longrightarrow> c \<noteq> CHR 0x00"
  by (auto simp: isdigit_def)

lemma dropWhile_spaces:
  "dropWhile isspace (replicate k (CHR '' '') @ x) = dropWhile isspace x"
  by (induction k) (simp_all add: isspace_def)

lemma decimal_Cons: "\<exists>c cs. decimal n = c # cs \<and> isdigit c"
  using decimal_digits [of n] decimal_nonempty [of n] by (cases "decimal n") auto

lemma takeWhile_decimal:
  "\<not> isdigit x \<Longrightarrow> takeWhile isdigit (decimal n @ x # rest) = decimal n"
  using decimal_digits [of n] by (simp add: list_all_iff)

lemma scan_ld_decimal:
  assumes "\<not> isdigit x"
  shows "scan_ld (decimal n @ x # rest) = Some (int n)"
proof -
  obtain c cs where d: "decimal n = c # cs" and c: "isdigit c"
    using decimal_Cons by blast
  have s: "dropWhile isspace (decimal n @ x # rest) = decimal n @ x # rest"
    using c isdigit_not_isspace by (simp add: d)
  have t: "takeWhile isdigit (c # cs @ x # rest) = c # cs"
    using takeWhile_decimal [OF assms, of n rest] by (simp add: d)
  show ?thesis
    unfolding scan_ld_def s
    using c isdigit_not_sign [OF c] t digits_value_decimal [of n]
    by (simp add: d Let_def)
qed

lemma c_str_no_NUL: "CHR 0x00 \<notin> set buf \<Longrightarrow> c_str buf = buf"
  by (auto simp: c_str_def)

lemma decimal_no_NUL: "CHR 0x00 \<notin> set (decimal n)"
  using decimal_digits [of n] isdigit_not_NUL by (auto simp: list_all_iff)

lemma decimal_no_newline: "CHR 0x0A \<notin> set (decimal n)"
  using decimal_digits [of n] by (auto simp: list_all_iff isdigit_def)

lemma sscanf_MemAvailable_line:
  "sscanf_MemAvailable (MemAvailable_line k n @ [CHR 0x0A]) = Some (int n)"
proof -
  let ?tail = "replicate k (CHR '' '') @ decimal n @ '' kB'' @ [CHR 0x0A]"
  have line: "MemAvailable_line k n @ [CHR 0x0A] = ''MemAvailable:'' @ ?tail"
    by (simp add: MemAvailable_line_def)
  have "CHR 0x00 \<notin> set (''MemAvailable:'' @ ?tail)"
    using decimal_no_NUL [of n] by auto
  then have c: "c_str (''MemAvailable:'' @ ?tail) = ''MemAvailable:'' @ ?tail"
    by (rule c_str_no_NUL)
  have m: "match_literal ''MemAvailable:'' (''MemAvailable:'' @ ?tail) = Some ?tail"
    by (rule match_literal_append)
  obtain d ds where d: "decimal n = d # ds" and dd: "isdigit d"
    using decimal_Cons by blast
  have dr: "dropWhile isspace ?tail = decimal n @ CHR '' '' # ''kB'' @ [CHR 0x0A]"
    using dd isdigit_not_isspace by (simp add: dropWhile_spaces d)
  have nd: "\<not> isdigit (CHR '' '')" by (simp add: isdigit_def)
  have "sscanf_MemAvailable (''MemAvailable:'' @ ?tail) = scan_ld (dropWhile isspace ?tail)"
    by (simp only: sscanf_MemAvailable_def c m option.case)
  also have "\<dots> = scan_ld (decimal n @ CHR '' '' # ''kB'' @ [CHR 0x0A])"
    by (simp only: dr)
  also have "\<dots> = Some (int n)"
    using nd by (rule scan_ld_decimal)
  finally show ?thesis by (simp only: line)
qed

lemma read_meminfo_MemAvailable_line:
  assumes "k + length (decimal n) < 239"
  shows "read_meminfo (MemAvailable_line k n @ CHR 0x0A # post) kb = int n"
proof -
  have "CHR 0x0A \<notin> set (MemAvailable_line k n)"
    using decimal_no_newline [of n] by (auto simp: MemAvailable_line_def)
  moreover have "length (MemAvailable_line k n) < 255"
    using assms by (simp add: MemAvailable_line_def)
  ultimately have "fgets 256 (MemAvailable_line k n @ CHR 0x0A # post)
      = Some (MemAvailable_line k n @ [CHR 0x0A], post)"
    by (rule fgets_line)
  then show ?thesis
    by (subst read_meminfo.simps) (simp add: sscanf_MemAvailable_line)
qed

lemma sint_jlong_small: "0 \<le> x \<Longrightarrow> x < 2 ^ 31 \<Longrightarrow> sint (word_of_int x :: 64 word) = x"
  by (simp add: sint_sbintrunc' signed_take_bit_int_eq_self)

lemma sdiv_nonneg: "0 \<le> (x::int) \<Longrightarrow> x sdiv 1024 = x div 1024"
  by (cases "x = 0") (simp_all add: signed_divide_int_def)

lemma GetAvailableMemory_value:
  assumes "list_all other_line pre" and "k \<le> 200" and "n < 2 ^ 31"
  shows "sint (LLMInferenceImpl_nativeGetAvailableMemory
           (Some (text_of_lines pre @ MemAvailable_line k n @ CHR 0x0A # post)))
         = int n div 1024"
proof -
  have "n < 10 ^ Suc 9" using assms(3) by simp
  then have "length (decimal n) \<le> Suc 9" by (rule length_decimal)
  with assms(2) have len: "k + length (decimal n) < 239" by simp
  have "read_meminfo (text_of_lines pre @ MemAvailable_line k n @ CHR 0x0A # post) 0
      = read_meminfo (MemAvailable_line k n @ CHR 0x0A # post) 0"
    using assms(1) by (rule read_meminfo_skip_lines)
  also have "\<dots> = int n" using len by (rule read_meminfo_MemAvailable_line)
  finally have r: "read_meminfo (text_of_lines pre @ MemAvailable_line k n @ CHR 0x0A # post) 0
      = int n" .
  have q: "int n sdiv 1024 = int n div 1024" by (rule sdiv_nonneg) simp
  have "int n div 1024 \<le> int n" by (simp add: div_le_dividend zdiv_int [symmetric] del: of_nat_div)
  then have "int n div 1024 < 2 ^ 31" using assms(3) by simp
  moreover have "0 \<le> int n div 1024" by simp
  ultimately have "sint (word_of_int (int n div 1024) :: 64 word) = int n div 1024"
    by (intro sint_jlong_small)
  then show ?thesis
    by (simp add: LLMInferenceImpl_nativeGetAvailableMemory_def r q)
qed

text \<open>
  Claim C8. GetAvailableMemory returns 0 when \<^verbatim>\<open>/proc/meminfo\<close> cannot be opened;
  it returns 0 when the file has no occurrence of \<^verbatim>\<open>MemAvailable:\<close>, and when it
  consists of lines none of which begins with it; and when the first such entry, after
  any number of other lines, reads \<^verbatim>\<open>MemAvailable:\<close>, blanks, the number \<open>n\<close> in
  decimal and \<^verbatim>\<open> kB\<close>, it returns \<open>n\<close> divided by 1024 (rounded down), whatever
  follows that line. The number is taken to fit in a 32-bit \<^verbatim>\<open>long\<close> and the line
  in the 256-byte buffer.
\<close>

theorem GetAvailableMemory_megabytes_or_zero:
  "LLMInferenceImpl_nativeGetAvailableMemory None = 0
   \<and> (\<not> sublist ''MemAvailable:'' content \<longrightarrow>
        LLMInferenceImpl_nativeGetAvailableMemory (Some content) = 0)
   \<and> (list_all other_line ls \<longrightarrow>
        LLMInferenceImpl_nativeGetAvailableMemory (Some (text_of_lines ls)) = 0)
   \<and> (list_all other_line pre \<and> k \<le> 200 \<and> n < 2 ^ 31 \<longrightarrow>
        sint (LLMInferenceImpl_nativeGetAvailableMemory
               (Some (text_of_lines pre @ MemAvailable_line k n @ CHR 0x0A # post)))
          = int n div 1024)"
proof -
  have none: "LLMInferenceImpl_nativeGetAvailableMemory None = 0"
    by (simp add: LLMInferenceImpl_nativeGetAvailableMemory_def)
  have absent: "LLMInferenceImpl_nativeGetAvailableMemory (Some content) = 0"
    if "\<not> sublist ''MemAvailable:'' content"
    using read_meminfo_no_occurrence [OF that, of 0]
    by (simp add: LLMInferenceImpl_nativeGetAvailableMemory_def)
  have "read_meminfo (text_of_lines ls @ []) 0 = read_meminfo [] 0" if "list_all other_line ls"
    using that by (rule read_meminfo_skip_lines)
  moreover have "read_meminfo [] 0 = 0"
    by (subst read_meminfo.simps) (simp add: fgets_def)
  ultimately have others: "LLMInferenceImpl_nativeGetAvailableMemory (Some (text_of_lines ls)) = 0"
    if "list_all other_line ls"
    using that by (simp add: LLMInferenceImpl_nativeGetAvailableMemory_def)
  show ?thesis
    using none absent others GetAvailableMemory_value [of pre k n post] by blast
qed

text \<open>
  The hypotheses of \<open>GetAvailableMemory_megabytes_or_zero\<close> at concrete files: one
  without a MemAvailable entry, and one whose third line reports 1571060 kB, that is
  1534 megabytes.
\<close>

theorem GetAvailableMemory_megabytes_or_zero_witness:
  "LLMInferenceImpl_nativeGetAvailableMemory None = 0
   \<and> LLMInferenceImpl_nativeGetAvailableMemory
        (Some (text_of_lines [''MemTotal:        3809036 kB'', ''MemFree:          282012 kB''])) = 0
   \<and> sint (LLMInferenceImpl_nativeGetAvailableMemory
        (Some (text_of_lines [''MemTotal:        3809036 kB'', ''MemFree:          282012 kB'']
               @ MemAvailable_line 4 1571060 @ CHR 0x0A # ''Buffers:           42420 kB''))) = 1534"
proof -
  let ?ls = "[''MemTotal:        3809036 kB'', ''MemFree:          282012 kB'']"
  have h1: "\<not> sublist ''MemAvailable:'' (text_of_lines ?ls)" by code_simp
  have h2: "list_all other_line ?ls" by (simp add: other_line_def)
  have h3: "(4::nat) \<le> 200 \<and> (1571060::nat) < 2 ^ 31" by simp
  have v: "int 1571060 div 1024 = 1534" by simp
  show ?thesis
    using GetAvailableMemory_megabytes_or_zero
      [of "text_of_lines ?ls" ?ls ?ls 4 1571060 "''Buffers:           42420 kB''"]
      h1 h2 h3 v by simp
qed

section \<open>Properties of the speech-recognition adapter\<close>

text \<open>
  Claim C4, as the code has it. For every file path and language and in every state,
  TranscribeFile returns the null reference and leaves the state unchanged: the absent
  result is the only signal of ``not implemented'' that the code gives.
\<close>

theorem TranscribeFile_returns_null:
  "SpeechRecognitionImpl_nativeTranscribeFile st file_path language = (st, None)"
  by (simp add: SpeechRecognitionImpl_nativeTranscribeFile_def)

text \<open>
  Against claim C4 as stated: the result for a concrete file and language is null, not
  a failure value.
\<close>

theorem TranscribeFile_null_counterexample:
  "snd (SpeechRecognitionImpl_nativeTranscribeFile whisper_initial ''/sdcard/audio.wav'' ''en'')
     = None"
  by (simp add: SpeechRecognitionImpl_nativeTranscribeFile_def)

lemma segment_construction:
  "NewObject ''com/pulsenetwork/core/native/TranscriptionSegment'' ''(Ljava/lang/String;JJF)V''
     [JString segment_text, JLong 0, JLong 3000, JFloat 0.95]
   = Returned (JNew ''com/pulsenetwork/core/native/TranscriptionSegment''
                 ''(Ljava/lang/String;JJF)V''
                 [JString segment_text, JLong 0, JLong 3000, JFloat 0.95])"
  by (simp add: NewObject_def)

lemma ModelInfo_construction:
  "NewObject ''com/pulsenetwork/core/native/ModelInfo''
     ''(Ljava/lang/String;JIILjava/lang/String;J)V''
     [JString ''Unknown Model'', JLong 0, JInt 2048, JInt 384, JString ''Unknown'', JLong 0]
   = Returned (JNew ''com/pulsenetwork/core/native/ModelInfo''
                 ''(Ljava/lang/String;JIILjava/lang/String;J)V''
                 [JString ''Unknown Model'', JLong 0, JInt 2048, JInt 384,
                  JString ''Unknown'', JLong 0])"
  by (simp add: NewObject_def)

lemma Transcribe_unfolded:
  "SpeechRecognitionImpl_nativeTranscribe st samples language
   = (st, NewObject ''com/pulsenetwork/core/native/TranscriptionResult''
            ''(Ljava/util/List;JLjava/lang/String;F)V''
            [JString transcript_text,
             JList [JNew ''com/pulsenetwork/core/native/TranscriptionSegment''
                      ''(Ljava/lang/String;JJF)V''
                      [JString segment_text, JLong 0, JLong 3000, JFloat 0.95]],
             JLong 500, JStringReleased language, JFloat 0.9])"
  unfolding SpeechRecognitionImpl_nativeTranscribe_def Let_def segment_construction
  by simp

lemma result_construction_mismatch:
  "NewObject ''com/pulsenetwork/core/native/TranscriptionResult''
     ''(Ljava/util/List;JLjava/lang/String;F)V''
     [JString t, JList segs, JLong ms, JStringReleased l, JFloat c]
   = NewObject_mismatch ''com/pulsenetwork/core/native/TranscriptionResult''
       ''(Ljava/util/List;JLjava/lang/String;F)V''
       [JString t, JList segs, JLong ms, JStringReleased l, JFloat c]"
  by (simp add: NewObject_def)

text \<open>
  Claim C7, as the code has it. Transcribe checks neither the sample array nor the
  handle: for every sample array, the empty one included, every language and every
  state, loaded or not, it leaves the handle as it was and goes on, in the same way for
  all sample arrays and states, to the constructor call for the simulated
  TranscriptionResult (fixed text, one fixed segment from 0 to 3000 ms, 500 ms,
  confidence 0.9). What that call yields and which language string it carries is no
  part of this statement.
\<close>

theorem Transcribe_checks_nothing:
  "fst (SpeechRecognitionImpl_nativeTranscribe st samples language) = st
   \<and> snd (SpeechRecognitionImpl_nativeTranscribe st samples language)
     = NewObject ''com/pulsenetwork/core/native/TranscriptionResult''
         ''(Ljava/util/List;JLjava/lang/String;F)V''
         [JString transcript_text,
          JList [JNew ''com/pulsenetwork/core/native/TranscriptionSegment''
                   ''(Ljava/lang/String;JJF)V''
                   [JString segment_text, JLong 0, JLong 3000, JFloat 0.95]],
          JLong 500, JStringReleased language, JFloat 0.9]
   \<and> snd (SpeechRecognitionImpl_nativeTranscribe st samples language)
     = snd (SpeechRecognitionImpl_nativeTranscribe st' samples' language)
   \<and> snd (SpeechRecognitionImpl_nativeTranscribe st samples language)
     = snd (SpeechRecognitionImpl_nativeTranscribe (st\<lparr>g_whisper_ctx := None\<rparr>) [] language)"
  by (simp only: Transcribe_unfolded fst_conv snd_conv simp_thms)

text \<open>
  Against claim C7 as stated: with no speech model loaded and an empty sample array the
  call is not turned away. It runs, exactly as it does for a non-empty array, up to the
  constructor call that is handed the simulated transcript and segment.
\<close>

theorem Transcribe_empty_without_model_counterexample:
  "\<not> SpeechRecognitionImpl_nativeIsModelLoaded whisper_initial
   \<and> SpeechRecognitionImpl_nativeTranscribe whisper_initial [] ''en''
     = (whisper_initial,
        NewObject_mismatch ''com/pulsenetwork/core/native/TranscriptionResult''
          ''(Ljava/util/List;JLjava/lang/String;F)V''
          [JString transcript_text,
           JList [JNew ''com/pulsenetwork/core/native/TranscriptionSegment''
                    ''(Ljava/lang/String;JJF)V''
                    [JString segment_text, JLong 0, JLong 3000, JFloat 0.95]],
           JLong 500, JStringReleased ''en'', JFloat 0.9])
   \<and> snd (SpeechRecognitionImpl_nativeTranscribe whisper_initial [] ''en'')
     = snd (SpeechRecognitionImpl_nativeTranscribe whisper_initial [0.5, - 0.25] ''en'')"
  by (simp add: Transcribe_unfolded result_construction_mismatch
      SpeechRecognitionImpl_nativeIsModelLoaded_def whisper_initial_def)

end
